theory Spec2Isabelle
  imports Main "HOL-Library.AList"
begin

section \<open>The signalling relay of src/index.js\<close>

text \<open>
  The relay keeps four process-wide JavaScript \<^verbatim>\<open>Map\<close>s (\<^verbatim>\<open>appClients\<close>, \<^verbatim>\<open>cloakRooms\<close>,
  \<^verbatim>\<open>connectionsPerIP\<close>, \<^verbatim>\<open>pendingMatches\<close>) and mutates the WebSocket objects it is handed.
  The objects are shared by reference between the maps, so they live in an explicit heap
  indexed by object identity (\<open>handle\<close>); a \<^verbatim>\<open>Map\<close> is an association list in insertion
  order (\<open>map_of\<close> is \<^verbatim>\<open>get\<close>, \<open>AList.update\<close> is \<^verbatim>\<open>set\<close>, \<open>AList.delete\<close> is
  \<^verbatim>\<open>delete\<close>), a \<^verbatim>\<open>Set\<close> is a list in insertion order.

  What the program does to the outside is collected, in order, in the log \<open>out\<close>: every
  call of \<^verbatim>\<open>send\<close>, \<^verbatim>\<open>close\<close>, \<^verbatim>\<open>terminate\<close> and \<^verbatim>\<open>ping\<close> on a socket.

  Each handler invocation is one atomic transition: the two \<^verbatim>\<open>await\<close> points of
  \<^verbatim>\<open>handleCloakLogic\<close> (hashing and comparing a password) are not interleaving points here.
  The fields of an inbound message that the program reads are strings when present.
  \<^verbatim>\<open>Date.now()\<close> reads the field \<open>clock\<close>, which every event sets to its time of arrival.
\<close>

subsection \<open>Data\<close>

type_synonym handle = nat

datatype readyState = CONNECTING | OPEN | CLOSING | CLOSED

text \<open>The values of \<^verbatim>\<open>connectionsPerIP\<close>: \<^verbatim>\<open>undefined - 1\<close> is \<^verbatim>\<open>NaN\<close>.\<close>

datatype jsnum = Num int | NaN

text \<open>
  A WebSocket object. \<open>ws_ip\<close> is the closure variable \<^verbatim>\<open>ip\<close> of its handlers and
  \<open>ws_listening\<close> says whether the \<^verbatim>\<open>message\<close>, \<^verbatim>\<open>close\<close> and \<^verbatim>\<open>pong\<close> handlers were attached;
  \<^verbatim>\<open>room\<close>, \<^verbatim>\<open>alias\<close> and \<^verbatim>\<open>peerId\<close> are undefined (\<open>None\<close>) until assigned.
\<close>

record websocket =
  ws_ip :: string
  ws_listening :: bool
  ws_readyState :: readyState
  ws_isAlive :: bool
  ws_id :: string
  ws_msgCount :: int
  ws_msgTs :: int
  ws_room :: "string option"
  ws_alias :: "string option"
  ws_peerId :: "string option"

text \<open>The parsed inbound object; \<open>d_rest\<close> stands for every field the relay does not read.\<close>

record data =
  d_appType :: "string option"
  d_type :: "string option"
  d_room :: "string option"
  d_password :: "string option"
  d_alias :: "string option"
  d_peerId :: "string option"
  d_targetPeerId :: "string option"
  d_rest :: string

record room =
  clients :: "handle list"
  password :: "string option"
  createdAt :: int

text \<open>
  The objects the relay serialises. A field read from a socket that may be undefined is an
  option: \<^verbatim>\<open>JSON.stringify\<close> leaves an undefined field out.
\<close>

datatype message =
    Error string
  | Joined string string "(string \<times> string option) list"
  | Peer_joined string string
  | Peer_left string
  | Registered string
  | Peer_found "string option"
  | Signal data string
  | Forward data "string option"

datatype action =
    Send handle message
  | Close handle nat
  | Terminate handle
  | Ping handle

text \<open>The external password capability (\<^verbatim>\<open>bcrypt.hash\<close>, \<^verbatim>\<open>bcrypt.compare\<close>).\<close>

record bcrypt =
  hash :: "string \<Rightarrow> string"
  compare :: "string \<Rightarrow> string \<Rightarrow> bool"

record state =
  clock :: int
  sockets :: "handle \<Rightarrow> websocket"
  wssClients :: "handle list"
  appClients :: "(string \<times> handle) list option"
  cloakRooms :: "(string \<times> room) list"
  connectionsPerIP :: "(string \<times> jsnum) list"
  pendingMatches :: "(string \<times> handle) list"
  timers :: "(string \<times> handle) list"
  out :: "action list"

definition MAX_MESSAGE_SIZE :: nat where
  "MAX_MESSAGE_SIZE = 64 * 1024"

text \<open>JavaScript truthiness of a string-or-undefined value: the empty string is falsy.\<close>

definition truthy :: "string option \<Rightarrow> bool" where
  "truthy v = (case v of None \<Rightarrow> False | Some s \<Rightarrow> s \<noteq> [])"

text \<open>\<^verbatim>\<open>Set.prototype.add\<close>: an element already present keeps its place.\<close>

definition set_add :: "'a \<Rightarrow> 'a list \<Rightarrow> 'a list" where
  "set_add x xs = (if x \<in> set xs then xs else xs @ [x])"

subsection \<open>The transport's methods\<close>

text \<open>
  The \<^verbatim>\<open>ws\<close> library is not part of the repository. Of its behaviour the model keeps the
  call itself (logged, whatever the ready state of the socket) and the ready state:
  \<^verbatim>\<open>close\<close> and \<^verbatim>\<open>terminate\<close> leave an open socket \<open>CLOSING\<close>, and the \<^verbatim>\<open>close\<close> event finds
  it \<open>CLOSED\<close>.
\<close>

definition send :: "state \<Rightarrow> handle \<Rightarrow> message \<Rightarrow> state" where
  "send st ws m = st\<lparr>out := out st @ [Send ws m]\<rparr>"

definition close :: "state \<Rightarrow> handle \<Rightarrow> nat \<Rightarrow> state" where
  "close st ws code =
     st\<lparr>sockets := (sockets st)(ws := (sockets st ws)
            \<lparr>ws_readyState := (if ws_readyState (sockets st ws) = OPEN then CLOSING
                               else ws_readyState (sockets st ws))\<rparr>),
        out := out st @ [Close ws code]\<rparr>"

definition terminate :: "state \<Rightarrow> handle \<Rightarrow> state" where
  "terminate st ws =
     st\<lparr>sockets := (sockets st)(ws := (sockets st ws)
            \<lparr>ws_readyState := (if ws_readyState (sockets st ws) = CLOSED then CLOSED
                               else CLOSING)\<rparr>),
        out := out st @ [Terminate ws]\<rparr>"

definition ping :: "state \<Rightarrow> handle \<Rightarrow> state" where
  "ping st ws = st\<lparr>out := out st @ [Ping ws]\<rparr>"

text \<open>A socket as the server hands it to the \<^verbatim>\<open>connection\<close> handler.\<close>

definition newWebSocket :: websocket where
  "newWebSocket =
     \<lparr>ws_ip = [], ws_listening = False, ws_readyState = OPEN, ws_isAlive = False,
      ws_id = [], ws_msgCount = 0, ws_msgTs = 0, ws_room = None, ws_alias = None,
      ws_peerId = None\<rparr>"

subsection \<open>Rooms\<close>

definition broadcastToRoom ::
  "state \<Rightarrow> string \<Rightarrow> message \<Rightarrow> handle option \<Rightarrow> string option \<Rightarrow> state" where
  "broadcastToRoom st roomId messageObj sender targetId =
     (case map_of (cloakRooms st) roomId of
        None \<Rightarrow> st
      | Some room \<Rightarrow>
          foldl (\<lambda>s client.
                   if Some client \<noteq> sender \<and> ws_readyState (sockets s client) = OPEN
                   then (if truthy targetId \<and> Some (ws_id (sockets s client)) \<noteq> targetId
                         then s
                         else send s client messageObj)
                   else s)
                st (clients room))"

text \<open>Lines 77 to 93: the join once the password gate is passed.\<close>

definition acceptJoin :: "state \<Rightarrow> handle \<Rightarrow> string \<Rightarrow> room \<Rightarrow> data \<Rightarrow> state" where
  "acceptJoin st ws r room data =
     (let a = (if truthy (d_alias data) then the (d_alias data) else ''Cloaker'');
          members = set_add ws (clients room);
          st2 = st\<lparr>sockets := (sockets st)(ws := (sockets st ws)
                                  \<lparr>ws_room := Some r, ws_alias := Some a\<rparr>),
                  cloakRooms := AList.update r (room\<lparr>clients := members\<rparr>) (cloakRooms st)\<rparr>;
          peersInRoom = map (\<lambda>c. (ws_id (sockets st2 c), ws_alias (sockets st2 c)))
                            (filter (\<lambda>c. c \<noteq> ws) members);
          st3 = send st2 ws (Joined r (ws_id (sockets st2 ws)) peersInRoom)
      in broadcastToRoom st3 r (Peer_joined (ws_id (sockets st3 ws)) a) (Some ws) None)"

definition handleCloakLogic :: "bcrypt \<Rightarrow> state \<Rightarrow> handle \<Rightarrow> data \<Rightarrow> state" where
  "handleCloakLogic B st ws data =
     (if d_type data = Some ''join'' then
        (if truthy (d_room data) then
           (let r = the (d_room data);
                st1 = (if map_of (cloakRooms st) r = None
                       then st\<lparr>cloakRooms :=
                                 AList.update r
                                   \<lparr>clients = [],
                                    password = (if truthy (d_password data)
                                                then Some (hash B (the (d_password data)))
                                                else None),
                                    createdAt = clock st\<rparr>
                                   (cloakRooms st)\<rparr>
                       else st)
            in case map_of (cloakRooms st1) r of
                 None \<Rightarrow> st1
               | Some room \<Rightarrow>
                   if truthy (password room) then
                     (if truthy (d_password data) then
                        (if compare B (the (d_password data)) (the (password room))
                         then acceptJoin st1 ws r room data
                         else send st1 ws (Error ''Wrong password''))
                      else send st1 ws (Error ''Password required''))
                   else acceptJoin st1 ws r room data)
         else st)
      else if d_type data = Some ''signal'' then
        (if truthy (ws_room (sockets st ws))
         then broadcastToRoom st (the (ws_room (sockets st ws)))
                (Signal data (ws_id (sockets st ws))) (Some ws) (d_targetPeerId data)
         else st)
      else st)"

subsection \<open>The peer directory\<close>

definition handleMessengerLogic :: "state \<Rightarrow> handle \<Rightarrow> data \<Rightarrow> state" where
  "handleMessengerLogic st0 ws data =
     (let st = (if appClients st0 = None then st0\<lparr>appClients := Some []\<rparr> else st0);
          dir = (case appClients st of None \<Rightarrow> [] | Some m \<Rightarrow> m)
      in if d_type data = Some ''register'' then
           (if truthy (d_peerId data) then
              (let p = the (d_peerId data);
                   st1 = st\<lparr>appClients := Some (AList.update p ws dir),
                           sockets := (sockets st)(ws := (sockets st ws)\<lparr>ws_peerId := Some p\<rparr>)\<rparr>;
                   st2 = send st1 ws (Registered p)
               in case map_of (pendingMatches st2) p of
                    None \<Rightarrow> st2
                  | Some requesterWs \<Rightarrow>
                      (let st3 = (if ws_readyState (sockets st2 requesterWs) = OPEN
                                  then send (send st2 requesterWs (Peer_found (Some p))) ws
                                         (Peer_found (ws_peerId (sockets st2 requesterWs)))
                                  else st2)
                       in st3\<lparr>pendingMatches := AList.delete p (pendingMatches st3)\<rparr>))
            else st)
         else if d_type data = Some ''find_peer'' then
           (if truthy (d_targetPeerId data) then
              (let t = the (d_targetPeerId data)
               in if map_of dir t = None
                  then st\<lparr>pendingMatches := AList.update t ws (pendingMatches st),
                          timers := timers st @ [(t, ws)]\<rparr>
                  else send st ws (Peer_found (Some t)))
            else st)
         else if d_type data = Some ''offer'' \<or> d_type data = Some ''answer''
                 \<or> d_type data = Some ''candidate'' then
           (if truthy (d_targetPeerId data) then
              (case map_of dir (the (d_targetPeerId data)) of
                 None \<Rightarrow> st
               | Some targetWs \<Rightarrow>
                   if ws_readyState (sockets st targetWs) = OPEN
                   then send st targetWs (Forward data (ws_peerId (sockets st ws)))
                   else st)
            else st)
         else st)"

text \<open>The callback that \<^verbatim>\<open>find_peer\<close> hands to \<^verbatim>\<open>setTimeout\<close> (lines 145 to 147).\<close>

definition pendingTimeout :: "state \<Rightarrow> string \<Rightarrow> handle \<Rightarrow> state" where
  "pendingTimeout st targetPeerId ws =
     (if map_of (pendingMatches st) targetPeerId = Some ws
      then st\<lparr>pendingMatches := AList.delete targetPeerId (pendingMatches st)\<rparr>
      else st)"

subsection \<open>Teardown\<close>

definition limpiarRecursos :: "state \<Rightarrow> handle \<Rightarrow> state" where
  "limpiarRecursos st ws =
     (let st1 =
            (if truthy (ws_room (sockets st ws)) then
               (case map_of (cloakRooms st) (the (ws_room (sockets st ws))) of
                  None \<Rightarrow> st
                | Some room \<Rightarrow>
                    (let r = the (ws_room (sockets st ws));
                         left = removeAll ws (clients room);
                         sa = st\<lparr>cloakRooms :=
                                   AList.update r (room\<lparr>clients := left\<rparr>) (cloakRooms st)\<rparr>;
                         sb = broadcastToRoom sa r (Peer_left (ws_id (sockets sa ws))) None None
                     in if left = [] then sb\<lparr>cloakRooms := AList.delete r (cloakRooms sb)\<rparr>
                        else sb))
             else st)
      in if truthy (ws_peerId (sockets st1 ws)) then
           (case appClients st1 of
              None \<Rightarrow> st1
            | Some dir \<Rightarrow>
                st1\<lparr>appClients := Some (AList.delete (the (ws_peerId (sockets st1 ws))) dir),
                    pendingMatches :=
                      foldl (\<lambda>pm (targetId, requesterWs).
                               if requesterWs = ws then AList.delete targetId pm else pm)
                            (pendingMatches st1) (pendingMatches st1)\<rparr>)
         else st1)"

subsection \<open>Connection handlers\<close>

text \<open>
  \<^verbatim>\<open>wss.on('connection')\<close>, lines 18 to 28 and the registration of the handlers. The first
  line of the definition is the server's part: a new open socket, listed in
  \<^verbatim>\<open>wss.clients\<close>. The random id is an input.
\<close>

definition connection :: "state \<Rightarrow> handle \<Rightarrow> string \<Rightarrow> string \<Rightarrow> state" where
  "connection st0 ws ip randomId =
     (let st = st0\<lparr>sockets := (sockets st0)(ws := newWebSocket),
                   wssClients := wssClients st0 @ [ws]\<rparr>;
          currentIPCount =
            (case map_of (connectionsPerIP st) ip of Some (Num n) \<Rightarrow> n | _ \<Rightarrow> 0) + 1
      in if currentIPCount > 20 then terminate st ws
         else st\<lparr>connectionsPerIP := AList.update ip (Num currentIPCount) (connectionsPerIP st),
                 sockets := (sockets st)(ws := (sockets st ws)
                   \<lparr>ws_ip := ip, ws_listening := True, ws_isAlive := True, ws_id := randomId,
                    ws_msgCount := 0, ws_msgTs := clock st\<rparr>)\<rparr>)"

text \<open>
  \<^verbatim>\<open>ws.on('message')\<close>. The frame is given by its length and by the object it parses to;
  \<open>None\<close> is a frame on which \<^verbatim>\<open>JSON.parse\<close> or a field access throws.
\<close>

definition on_message :: "bcrypt \<Rightarrow> state \<Rightarrow> handle \<Rightarrow> nat \<Rightarrow> data option \<Rightarrow> state" where
  "on_message B st ws len parsed =
     (let now = clock st;
          w0 = sockets st ws;
          w1 = (if now - ws_msgTs w0 > 1000 then w0\<lparr>ws_msgTs := now, ws_msgCount := 0\<rparr> else w0);
          w2 = w1\<lparr>ws_msgCount := ws_msgCount w1 + 1\<rparr>;
          st1 = st\<lparr>sockets := (sockets st)(ws := w2)\<rparr>
      in if ws_msgCount w2 > 50 then close st1 ws 1011
         else if len > MAX_MESSAGE_SIZE then close st1 ws 1009
         else (case parsed of
                 None \<Rightarrow> st1
               | Some data \<Rightarrow>
                   if d_appType data = Some ''cloaks'' \<or> d_appType data = Some ''cudi-sync''
                   then handleCloakLogic B st1 ws data
                   else if d_appType data = Some ''cudi-messenger''
                   then handleMessengerLogic st1 ws data
                   else st1))"

definition on_close :: "state \<Rightarrow> handle \<Rightarrow> state" where
  "on_close st ws =
     (let ip = ws_ip (sockets st ws);
          st1 = (case map_of (connectionsPerIP st) ip of
                   Some (Num n) \<Rightarrow>
                     if n - 1 \<le> 0
                     then st\<lparr>connectionsPerIP := AList.delete ip (connectionsPerIP st)\<rparr>
                     else st\<lparr>connectionsPerIP :=
                               AList.update ip (Num (n - 1)) (connectionsPerIP st)\<rparr>
                 | _ \<Rightarrow> st\<lparr>connectionsPerIP := AList.update ip NaN (connectionsPerIP st)\<rparr>)
      in limpiarRecursos st1 ws)"

definition heartbeat :: "state \<Rightarrow> handle \<Rightarrow> state" where
  "heartbeat st ws = st\<lparr>sockets := (sockets st)(ws := (sockets st ws)\<lparr>ws_isAlive := True\<rparr>)\<rparr>"

text \<open>The body of the \<^verbatim>\<open>setInterval\<close> callback (lines 182 to 188).\<close>

definition interval :: "state \<Rightarrow> state" where
  "interval st =
     foldl (\<lambda>s ws.
              if ws_isAlive (sockets s ws)
              then ping (s\<lparr>sockets := (sockets s)(ws := (sockets s ws)\<lparr>ws_isAlive := False\<rparr>)\<rparr>) ws
              else terminate s ws)
           st (wssClients st)"

subsection \<open>Events\<close>

text \<open>
  What the runtime delivers, each with the reading of the clock at that moment. A socket
  emits \<^verbatim>\<open>close\<close> once and no \<^verbatim>\<open>message\<close> afterwards, and only a socket whose handlers were
  attached runs them; timers of equal delay fire in the order they were set.
\<close>

datatype event =
    Connection handle string string
  | Message handle nat "data option"
  | Closed handle
  | Pong handle
  | Timeout
  | Interval

definition step :: "bcrypt \<Rightarrow> state \<Rightarrow> int \<times> event \<Rightarrow> state" where
  "step B st0 te =
     (let st = st0\<lparr>clock := fst te\<rparr>
      in case snd te of
           Connection ws ip randomId \<Rightarrow> connection st ws ip randomId
         | Message ws len parsed \<Rightarrow>
             if ws_listening (sockets st ws) \<and> ws_readyState (sockets st ws) \<noteq> CLOSED
             then on_message B st ws len parsed
             else st
         | Closed ws \<Rightarrow>
             if ws_readyState (sockets st ws) = CLOSED then st
             else (let st1 = st\<lparr>sockets := (sockets st)(ws := (sockets st ws)
                                               \<lparr>ws_readyState := CLOSED\<rparr>),
                                wssClients := removeAll ws (wssClients st)\<rparr>
                   in if ws_listening (sockets st1 ws) then on_close st1 ws else st1)
         | Pong ws \<Rightarrow> if ws_listening (sockets st ws) then heartbeat st ws else st
         | Timeout \<Rightarrow>
             (case timers st of
                [] \<Rightarrow> st
              | (targetPeerId, ws) # rest \<Rightarrow> pendingTimeout (st\<lparr>timers := rest\<rparr>) targetPeerId ws)
         | Interval \<Rightarrow> interval st)"

definition run :: "bcrypt \<Rightarrow> state \<Rightarrow> (int \<times> event) list \<Rightarrow> state" where
  "run B st es = foldl (step B) st es"

definition init :: state where
  "init =
     \<lparr>clock = 0, sockets = (\<lambda>_. newWebSocket), wssClients = [], appClients = None,
      cloakRooms = [], connectionsPerIP = [], pendingMatches = [], timers = [], out = []\<rparr>"

subsection \<open>Auxiliary definitions for the statements\<close>

text \<open>Who \<open>broadcastToRoom\<close> sends to, read off the state before the broadcast.\<close>

definition recipients :: "state \<Rightarrow> string \<Rightarrow> handle option \<Rightarrow> string option \<Rightarrow> handle list" where
  "recipients st roomId sender targetId =
     (case map_of (cloakRooms st) roomId of
        None \<Rightarrow> []
      | Some room \<Rightarrow>
          filter (\<lambda>c. Some c \<noteq> sender \<and> ws_readyState (sockets st c) = OPEN \<and>
                      (if truthy targetId then Some (ws_id (sockets st c)) = targetId else True))
                 (clients room))"

text \<open>
  A concrete password capability and an inbound object with no field set, for the
  scenarios evaluated below.
\<close>

definition demo_bcrypt :: bcrypt where
  "demo_bcrypt = \<lparr>hash = (\<lambda>p. CHR ''#'' # p), compare = (\<lambda>p d. d = CHR ''#'' # p)\<rparr>"

definition noData :: data where
  "noData =
     \<lparr>d_appType = None, d_type = None, d_room = None, d_password = None, d_alias = None,
      d_peerId = None, d_targetPeerId = None, d_rest = []\<rparr>"






text \<open>A sequence of \<^verbatim>\<open>join\<close> requests, each handled to completion.\<close>

definition joins :: "bcrypt \<Rightarrow> state \<Rightarrow> (handle \<times> data) list \<Rightarrow> state" where
  "joins B st js = foldl (\<lambda>s (ws, d). handleCloakLogic B s ws d) st js"


text \<open>
  Three admitted connections, join requests for two rooms, and a visitor of the second room
  who comes and goes.
\<close>

definition three_open :: state where
  "three_open = run demo_bcrypt init
                  [(0, Connection 1 ''10.0.0.1'' ''aa''), (0, Connection 2 ''10.0.0.2'' ''bb''),
                   (0, Connection 3 ''10.0.0.3'' ''cc'')]"

definition join_lobby :: "string option \<Rightarrow> string option \<Rightarrow> data" where
  "join_lobby pw al = noData\<lparr>d_appType := Some ''cloaks'', d_type := Some ''join'',
                             d_room := Some ''lobby'', d_password := pw, d_alias := al\<rparr>"



text \<open>The first \<open>n\<close> connection attempts from one address, on the sockets \<open>0\<close> to \<open>n - 1\<close>.\<close>

definition attempts :: "nat \<Rightarrow> (int \<times> event) list" where
  "attempts n = map (\<lambda>i. (0, Connection i ''10.0.0.1'' ''aa'')) [0..<n]"






section \<open>Basic facts\<close>

lemmas defs =
  run_def step_def connection_def on_message_def on_close_def limpiarRecursos_def
  handleMessengerLogic_def handleCloakLogic_def acceptJoin_def broadcastToRoom_def send_def
  close_def terminate_def init_def newWebSocket_def truthy_def set_add_def noData_def
  demo_bcrypt_def MAX_MESSAGE_SIZE_def pendingTimeout_def Let_def

lemma truthy_Some: "truthy (Some s) = (s \<noteq> [])"
  by (simp add: truthy_def)

lemma broadcast_foldl:
  "foldl (\<lambda>s client.
            if Some client \<noteq> sender \<and> ws_readyState (sockets s client) = OPEN
            then (if truthy targetId \<and> Some (ws_id (sockets s client)) \<noteq> targetId then s
                  else send s client m)
            else s) st cs
   = st\<lparr>out := out st @ map (\<lambda>c. Send c m)
        (filter (\<lambda>c. Some c \<noteq> sender \<and> ws_readyState (sockets st c) = OPEN \<and>
                      (if truthy targetId then Some (ws_id (sockets st c)) = targetId else True)) cs)\<rparr>"
proof (induction cs arbitrary: st)
  case Nil
  show ?case by simp
next
  case (Cons c cs)
  show ?case by (simp add: Cons.IH send_def)
qed

lemma broadcastToRoom_eq:
  "broadcastToRoom st r m sender targetId =
     st\<lparr>out := out st @ map (\<lambda>c. Send c m) (recipients st r sender targetId)\<rparr>"
  by (simp add: broadcastToRoom_def recipients_def broadcast_foldl split: option.split)

lemma limpiarRecursos_connectionsPerIP:
  "connectionsPerIP (limpiarRecursos st ws) = connectionsPerIP st"
  by (simp add: limpiarRecursos_def broadcastToRoom_eq Let_def split: option.split)




lemma acceptJoin_cloakRooms:
  "cloakRooms (acceptJoin st ws r room data) =
     AList.update r (room\<lparr>clients := set_add ws (clients room)\<rparr>) (cloakRooms st)"
  by (simp add: acceptJoin_def broadcastToRoom_eq send_def Let_def)

lemma acceptJoin_frame:
  "appClients (acceptJoin st ws r room data) = appClients st"
  "connectionsPerIP (acceptJoin st ws r room data) = connectionsPerIP st"
  "pendingMatches (acceptJoin st ws r room data) = pendingMatches st"
  "timers (acceptJoin st ws r room data) = timers st"
  "wssClients (acceptJoin st ws r room data) = wssClients st"
  "clock (acceptJoin st ws r room data) = clock st"
  by (simp_all add: acceptJoin_def broadcastToRoom_eq send_def Let_def)

lemma acceptJoin_out:
  "out (acceptJoin st ws r room data) =
     out st @ Send ws (Joined r (ws_id (sockets st ws))
                 (map (\<lambda>c. (ws_id (sockets st c), ws_alias (sockets st c)))
                      (filter (\<lambda>c. c \<noteq> ws) (set_add ws (clients room)))))
            # map (\<lambda>c. Send c (Peer_joined (ws_id (sockets st ws))
                     (if truthy (d_alias data) then the (d_alias data) else ''Cloaker'')))
                (filter (\<lambda>c. c \<noteq> ws \<and> ws_readyState (sockets st c) = OPEN)
                        (set_add ws (clients room)))"
proof -
  have peers: "map (\<lambda>c. (ws_id (((sockets st)(ws := w)) c), ws_alias (((sockets st)(ws := w)) c)))
                 (filter (\<lambda>c. c \<noteq> ws) xs)
             = map (\<lambda>c. (ws_id (sockets st c), ws_alias (sockets st c)))
                 (filter (\<lambda>c. c \<noteq> ws) xs)" for w xs
    by (induction xs) simp_all
  have rec: "filter (\<lambda>c. Some c \<noteq> Some ws \<and> ws_readyState (((sockets st)(ws := w)) c) = OPEN \<and> True) xs
             = filter (\<lambda>c. c \<noteq> ws \<and> ws_readyState (sockets st c) = OPEN) xs" for w xs
    by (induction xs) simp_all
  show ?thesis
    by (simp add: acceptJoin_def broadcastToRoom_eq recipients_def send_def Let_def
        AList.update_conv' truthy_def peers rec cong: conj_cong)
qed



lemma handleCloakLogic_frame:
  "appClients (handleCloakLogic B st ws data) = appClients st"
  "connectionsPerIP (handleCloakLogic B st ws data) = connectionsPerIP st"
  "pendingMatches (handleCloakLogic B st ws data) = pendingMatches st"
  "timers (handleCloakLogic B st ws data) = timers st"
  "wssClients (handleCloakLogic B st ws data) = wssClients st"
  "clock (handleCloakLogic B st ws data) = clock st"
  by (simp_all add: handleCloakLogic_def acceptJoin_frame broadcastToRoom_eq send_def Let_def
      split: option.split)













lemma join_existing:
  assumes "d_type data = Some ''join''" "d_room data = Some r" "r \<noteq> []"
    and "map_of (cloakRooms st) r = Some rm"
  shows "handleCloakLogic B st ws data =
     (if truthy (password rm) then
        (if truthy (d_password data) then
           (if compare B (the (d_password data)) (the (password rm))
            then acceptJoin st ws r rm data
            else send st ws (Error ''Wrong password''))
         else send st ws (Error ''Password required''))
      else acceptJoin st ws r rm data)"
  using assms by (simp add: handleCloakLogic_def truthy_Some Let_def)

lemma join_fresh_open:
  assumes "d_type data = Some ''join''" "d_room data = Some r" "r \<noteq> []"
    and "map_of (cloakRooms st) r = None" and "\<not> truthy (d_password data)"
  shows "handleCloakLogic B st ws data =
     acceptJoin (st\<lparr>cloakRooms := AList.update r \<lparr>clients = [], password = None, createdAt = clock st\<rparr> (cloakRooms st)\<rparr>)
        ws r \<lparr>clients = [], password = None, createdAt = clock st\<rparr> data"
  using assms by (simp add: handleCloakLogic_def truthy_Some Let_def AList.update_conv' truthy_def)

lemma set_set_add: "set (set_add x xs) = insert x (set xs)"
  by (auto simp add: set_add_def)

lemma distinct_set_add: "distinct xs \<Longrightarrow> distinct (set_add x xs)"
  by (simp add: set_add_def)

lemma set_add_member: "x \<in> set xs \<Longrightarrow> set_add x xs = xs"
  by (simp add: set_add_def)

lemma joins_snoc: "joins B st (js @ [(ws, d)]) = handleCloakLogic B (joins B st js) ws d"
  by (simp add: joins_def)

lemma joins_invariant:
  assumes "map_of (cloakRooms st) r = None" and "r \<noteq> []"
  shows "js \<noteq> [] \<Longrightarrow> list_all (\<lambda>(ws, d). d_type d = Some ''join'' \<and> d_room d = Some r) js \<Longrightarrow>
         \<not> truthy (d_password (snd (hd js))) \<Longrightarrow>
         \<exists>rm. map_of (cloakRooms (joins B st js)) r = Some rm \<and> password rm = None
              \<and> set (clients rm) = fst ` set js \<and> distinct (clients rm)"
proof (induction js rule: rev_induct)
  case Nil
  then show ?case by simp
next
  case (snoc x xs)
  obtain ws d where x: "x = (ws, d)" by (cases x)
  from snoc.prems(2) x have d: "d_type d = Some ''join''" "d_room d = Some r"
    and all: "list_all (\<lambda>(ws, d). d_type d = Some ''join'' \<and> d_room d = Some r) xs"
    by simp_all
  show ?case
  proof (cases "xs = []")
    case True
    with snoc.prems(3) x have np: "\<not> truthy (d_password d)" by simp
    have "joins B st (xs @ [x]) = handleCloakLogic B st ws d"
      using True x by (simp add: joins_def)
    then show ?thesis
      using True x
      by (simp add: join_fresh_open [OF d assms(2) assms(1) np] acceptJoin_cloakRooms
          AList.update_conv' set_add_def)
  next
    case False
    with snoc.prems(3) have "\<not> truthy (d_password (snd (hd xs)))" by simp
    from snoc.IH [OF False all this] obtain rm where
      rm: "map_of (cloakRooms (joins B st xs)) r = Some rm" "password rm = None"
        "set (clients rm) = fst ` set xs" "distinct (clients rm)"
      by blast
    have "joins B st (xs @ [x]) = acceptJoin (joins B st xs) ws r rm d"
      using x rm(2) by (simp add: joins_snoc join_existing [OF d assms(2) rm(1)] truthy_def)
    then show ?thesis
      using rm x
      by (simp add: acceptJoin_cloakRooms AList.update_conv' set_set_add distinct_set_add)
  qed
qed














section \<open>Room membership across joins (C1)\<close>

text \<open>
  C1 says that a connection belongs to at most one room, so that a member of room A that
  joins room B is no longer in A's member set. The join of lines 77 to 79 overwrites
  \<^verbatim>\<open>ws.room\<close> and adds the socket to B, and never removes it from A: connection 1 joins
  ''A'' and then ''B'' and is in both member sets, and when it closes, \<open>limpiarRecursos\<close>
  cleans only ''B'', the room \<^verbatim>\<open>ws.room\<close> names, so the closed socket stays in ''A'' and ''A''
  is never deleted.
\<close>

theorem C1_join_leaves_old_room_membership:
  "let st = run demo_bcrypt init
       [(0, Connection 1 ''10.0.0.1'' ''aa''),
        (1, Message 1 40 (Some (noData\<lparr>d_appType := Some ''cloaks'', d_type := Some ''join'',
                                       d_room := Some ''A''\<rparr>))),
        (2, Message 1 40 (Some (noData\<lparr>d_appType := Some ''cloaks'', d_type := Some ''join'',
                                       d_room := Some ''B''\<rparr>)))]
   in map fst (cloakRooms st) = [''A'', ''B'']
      \<and> map (clients \<circ> snd) (cloakRooms st) = [[1], [1]]
      \<and> ws_room (sockets st 1) = Some ''B''
      \<and> map fst (cloakRooms (step demo_bcrypt st (3, Closed 1))) = [''A'']
      \<and> map (clients \<circ> snd) (cloakRooms (step demo_bcrypt st (3, Closed 1))) = [[1]]"
  by (simp add: defs)

section \<open>Whose directory entry a disconnect removes (C2)\<close>

text \<open>
  C2 says that a disconnect removes only the entry the closing connection owns. Line 175
  deletes the key \<^verbatim>\<open>ws.peerId\<close> whoever it is bound to: connection 1 registers ''P'',
  connection 2 registers ''P'' and takes the entry over, connection 1 closes, and the
  directory has lost the entry of connection 2, which is still open and still carries the
  peer id ''P''.
\<close>

theorem C2_disconnect_removes_successor_entry:
  "let st = run demo_bcrypt init
       [(0, Connection 1 ''10.0.0.1'' ''aa''),
        (0, Connection 2 ''10.0.0.2'' ''bb''),
        (1, Message 1 40 (Some (noData\<lparr>d_appType := Some ''cudi-messenger'',
                                       d_type := Some ''register'', d_peerId := Some ''P''\<rparr>))),
        (2, Message 2 40 (Some (noData\<lparr>d_appType := Some ''cudi-messenger'',
                                       d_type := Some ''register'', d_peerId := Some ''P''\<rparr>)))]
   in appClients st = Some [(''P'', 2)]
      \<and> ws_peerId (sockets st 2) = Some ''P''
      \<and> appClients (step demo_bcrypt st (3, Closed 1)) = Some []
      \<and> ws_readyState (sockets (step demo_bcrypt st (3, Closed 1)) 2) = OPEN"
  by (simp add: defs)

section \<open>Pending matches of a closing requester (C3)\<close>

text \<open>
  C3 says that the pending match of a requester is deleted when the requester closes, whether
  or not it ever registered a peer id. The scan of lines 176 to 178 stands inside the test of
  \<^verbatim>\<open>ws.peerId\<close> of line 174: connection 1, which never registered, asks for ''X'' and closes,
  and the pending match for ''X'' still names it (only the timer set by \<^verbatim>\<open>find_peer\<close>, or a
  later \<^verbatim>\<open>register\<close> of ''X'', removes it).
\<close>

theorem C3_pending_match_survives_unregistered_close:
  "let st = run demo_bcrypt init
       [(0, Connection 1 ''10.0.0.1'' ''aa''),
        (1, Message 1 40 (Some (noData\<lparr>d_appType := Some ''cudi-messenger'',
                                       d_type := Some ''find_peer'',
                                       d_targetPeerId := Some ''X''\<rparr>))),
        (2, Closed 1)]
   in pendingMatches st = [(''X'', 1)]
      \<and> ws_readyState (sockets st 1) = CLOSED
      \<and> ws_peerId (sockets st 1) = None"
  by (simp add: defs)

section \<open>The per-address ceiling (C4)\<close>

text \<open>
  C4 as stated: the rejected attempt's increment of the per-address counter is kept until
  its close fires, and its close handler takes it back. It fails: line 21 returns before the
  counter is written and before any handler is attached. After twenty admitted connections
  from one address, the twenty-first leaves the counter at 20, has no handler, and its close
  event changes nothing.
\<close>

theorem C4_rejected_attempt_not_counted:
  "out (run demo_bcrypt init (attempts 21)) = [Terminate 20]
   \<and> map_of (connectionsPerIP (run demo_bcrypt init (attempts 21))) ''10.0.0.1'' \<noteq> Some (Num 21)
   \<and> map_of (connectionsPerIP (run demo_bcrypt init (attempts 21))) ''10.0.0.1'' = Some (Num 20)
   \<and> \<not> ws_listening (sockets (run demo_bcrypt init (attempts 21)) 20)
   \<and> connectionsPerIP (step demo_bcrypt (run demo_bcrypt init (attempts 21)) (1, Closed 20))
       = connectionsPerIP (run demo_bcrypt init (attempts 21))"
  by (simp add: attempts_def defs upt_rec)

text \<open>
  C4 as amended: when the address already counts 20 or more, the new connection is
  terminated and nothing else happens: the counter is left as it was, no handler is attached
  to the rejected socket, and its close event leaves the counter as it was. The close handler
  of an admitted connection lowers the counter of its address by one and deletes the key
  when that reaches zero.
\<close>

theorem C4_ceiling_accounting:
  assumes "map_of (connectionsPerIP st) ip = Some (Num n)"
  shows "(20 \<le> n \<longrightarrow>
           out (connection st ws ip randomId) = out st @ [Terminate ws]
           \<and> connectionsPerIP (connection st ws ip randomId) = connectionsPerIP st
           \<and> \<not> ws_listening (sockets (connection st ws ip randomId) ws)
           \<and> connectionsPerIP (step B (connection st ws ip randomId) (t, Closed ws))
               = connectionsPerIP st)
       \<and> (ws_ip (sockets st ws') = ip \<longrightarrow>
           map_of (connectionsPerIP (on_close st ws')) ip
             = (if n \<le> 1 then None else Some (Num (n - 1))))"
  using assms
  by (simp add: connection_def terminate_def newWebSocket_def step_def on_close_def
      limpiarRecursos_connectionsPerIP Let_def AList.update_conv' AList.delete_conv')

theorem C4_ceiling_accounting_witness:
  "map_of (connectionsPerIP (run demo_bcrypt init (attempts 20))) ''10.0.0.1'' = Some (Num 20)
   \<and> out (connection (run demo_bcrypt init (attempts 20)) 20 ''10.0.0.1'' ''bb'') = [Terminate 20]
   \<and> connectionsPerIP (connection (run demo_bcrypt init (attempts 20)) 20 ''10.0.0.1'' ''bb'')
       = [(''10.0.0.1'', Num 20)]
   \<and> map_of (connectionsPerIP (on_close (run demo_bcrypt init (attempts 20)) 3)) ''10.0.0.1''
       = Some (Num 19)"
proof -
  let ?st = "run demo_bcrypt init (attempts 20)"
  have c: "map_of (connectionsPerIP ?st) ''10.0.0.1'' = Some (Num 20)"
    by (simp add: attempts_def defs upt_rec)
  have o: "out ?st = []" and i: "ws_ip (sockets ?st 3) = ''10.0.0.1''"
    and k: "connectionsPerIP ?st = [(''10.0.0.1'', Num 20)]"
    by (simp_all add: attempts_def defs upt_rec)
  from C4_ceiling_accounting [OF c, where ws = 20 and randomId = "''bb''" and B = demo_bcrypt
      and t = 0 and ws' = 3] c o i k
  show ?thesis by simp
qed

section \<open>Deferred matching (C8, C9)\<close>






section \<open>Joining a room (C6, C10)\<close>

text \<open>
  C10: when a member \<open>ws\<close> of the room \<open>r\<close> joins \<open>r\<close> again and passes the gate, the rooms are
  what they were (the member list of \<open>r\<close> included), and the \<^verbatim>\<open>joined\<close> response lists the
  members other than \<open>ws\<close>.
\<close>

theorem C10_rejoin_keeps_members:
  assumes "d_type data = Some ''join''" and "d_room data = Some r" and "r \<noteq> []"
    and "map_of (cloakRooms st) r = Some rm" and "ws \<in> set (clients rm)"
    and "\<not> truthy (password rm) \<or>
         truthy (d_password data) \<and> compare B (the (d_password data)) (the (password rm))"
  shows "cloakRooms (handleCloakLogic B st ws data) = cloakRooms st
       \<and> out (handleCloakLogic B st ws data) =
           out st @ Send ws (Joined r (ws_id (sockets st ws))
                       (map (\<lambda>c. (ws_id (sockets st c), ws_alias (sockets st c)))
                            (filter (\<lambda>c. c \<noteq> ws) (clients rm))))
                  # map (\<lambda>c. Send c (Peer_joined (ws_id (sockets st ws))
                           (if truthy (d_alias data) then the (d_alias data) else ''Cloaker'')))
                      (filter (\<lambda>c. c \<noteq> ws \<and> ws_readyState (sockets st c) = OPEN) (clients rm))"
proof -
  from assms(6) have acc: "handleCloakLogic B st ws data = acceptJoin st ws r rm data"
    by (auto simp add: join_existing [OF assms(1-4)])
  have same: "rm\<lparr>clients := set_add ws (clients rm)\<rparr> = rm"
    by (simp add: set_add_member [OF assms(5)])
  show ?thesis
    by (simp add: acc acceptJoin_cloakRooms acceptJoin_out same set_add_member [OF assms(5)]
        AList.update_triv [OF assms(4)])
qed

lemmas scen2 = three_open_def join_lobby_def joins_def

theorem C10_rejoin_keeps_members_witness:
  "map_of (cloakRooms (joins demo_bcrypt three_open
             [(1, join_lobby None None), (2, join_lobby None (Some ''bob''))])) ''lobby''
     = Some \<lparr>clients = [1, 2], password = None, createdAt = 0\<rparr>
   \<and> cloakRooms (handleCloakLogic demo_bcrypt
         (joins demo_bcrypt three_open [(1, join_lobby None None), (2, join_lobby None (Some ''bob''))])
         1 (join_lobby None (Some ''al'')))
     = cloakRooms (joins demo_bcrypt three_open
         [(1, join_lobby None None), (2, join_lobby None (Some ''bob''))])
   \<and> out (handleCloakLogic demo_bcrypt
         (joins demo_bcrypt three_open [(1, join_lobby None None), (2, join_lobby None (Some ''bob''))])
         1 (join_lobby None (Some ''al'')))
     = out (joins demo_bcrypt three_open
         [(1, join_lobby None None), (2, join_lobby None (Some ''bob''))])
       @ [Send 1 (Joined ''lobby'' ''aa'' [(''bb'', Some ''bob'')]),
          Send 2 (Peer_joined ''aa'' ''al'')]"
proof -
  let ?st = "joins demo_bcrypt three_open [(1, join_lobby None None), (2, join_lobby None (Some ''bob''))]"
  let ?rm = "\<lparr>clients = [1, 2], password = None, createdAt = 0\<rparr>"
  have d: "d_type (join_lobby None (Some ''al'')) = Some ''join''"
      "d_room (join_lobby None (Some ''al'')) = Some ''lobby''" "''lobby'' \<noteq> []"
    by (simp_all add: join_lobby_def noData_def)
  have rm: "map_of (cloakRooms ?st) ''lobby'' = Some ?rm"
    by (simp add: scen2 defs)
  have m: "1 \<in> set (clients ?rm)" by simp
  have g: "\<not> truthy (password ?rm) \<or> truthy (d_password (join_lobby None (Some ''al'')))
      \<and> compare demo_bcrypt (the (d_password (join_lobby None (Some ''al'')))) (the (password ?rm))"
    by (simp add: truthy_def)
  have s: "ws_id (sockets ?st 1) = ''aa''" "ws_id (sockets ?st 2) = ''bb''"
     "ws_alias (sockets ?st 2) = Some ''bob''" "ws_readyState (sockets ?st 2) = OPEN"
     "d_alias (join_lobby None (Some ''al'')) = Some ''al''"
    by (simp_all add: scen2 defs)
  from C10_rejoin_keeps_members [OF d rm m g] rm s show ?thesis
    by (simp add: truthy_def)
qed

text \<open>
  C6: in a sequence \<open>js\<close> of joins to a room \<open>r\<close> that did not exist, opened by a join without
  a password, every join is answered by a \<^verbatim>\<open>joined\<close> message whose peers are the id and alias
  of exactly the sockets that joined before it, the joiner itself left out.
\<close>

theorem C6_joined_lists_earlier_members:
  assumes "map_of (cloakRooms st) r = None" and "r \<noteq> []"
    and "list_all (\<lambda>(ws, d). d_type d = Some ''join'' \<and> d_room d = Some r) js"
    and "\<not> truthy (d_password (snd (hd js)))"
    and "js = pre @ (ws, d) # post"
  shows "\<exists>cs bs.
           out (joins B st (pre @ [(ws, d)])) =
             out (joins B st pre)
             @ Send ws (Joined r (ws_id (sockets (joins B st pre) ws))
                 (map (\<lambda>c. (ws_id (sockets (joins B st pre) c), ws_alias (sockets (joins B st pre) c))) cs))
             # bs
           \<and> distinct cs \<and> set cs = fst ` set pre - {ws}"
proof -
  from assms(3,5) have d: "d_type d = Some ''join''" "d_room d = Some r"
    and all: "list_all (\<lambda>(ws, d). d_type d = Some ''join'' \<and> d_room d = Some r) pre"
    by simp_all
  show ?thesis
  proof (cases "pre = []")
    case True
    with assms(4,5) have np: "\<not> truthy (d_password d)" by simp
    have "joins B st (pre @ [(ws, d)]) = handleCloakLogic B st ws d" "joins B st pre = st"
      using True by (simp_all add: joins_def)
    then show ?thesis
      using True
      by (simp add: join_fresh_open [OF d assms(2) assms(1) np] acceptJoin_out set_add_def)
  next
    case False
    with assms(4,5) have "\<not> truthy (d_password (snd (hd pre)))" by simp
    from joins_invariant [OF assms(1,2) False all this, of B] obtain rm where
      rm: "map_of (cloakRooms (joins B st pre)) r = Some rm" "password rm = None"
        "set (clients rm) = fst ` set pre" "distinct (clients rm)"
      by blast
    let ?cs = "filter (\<lambda>c. c \<noteq> ws) (set_add ws (clients rm))"
    have acc: "joins B st (pre @ [(ws, d)]) = acceptJoin (joins B st pre) ws r rm d"
      using rm(2) by (simp add: joins_snoc join_existing [OF d assms(2) rm(1)] truthy_def)
    have "distinct ?cs" "set ?cs = fst ` set pre - {ws}"
      using rm(3,4) by (auto simp add: set_set_add distinct_set_add)
    then show ?thesis
      unfolding acc acceptJoin_out by (intro exI [of _ ?cs]) (simp; blast)
  qed
qed

theorem C6_joined_lists_earlier_members_witness:
  "map_of (cloakRooms three_open) ''lobby'' = None
   \<and> list_all (\<lambda>(ws, d). d_type d = Some ''join'' \<and> d_room d = Some ''lobby'')
        [(1, join_lobby None None), (2, join_lobby None (Some ''bob'')), (3, join_lobby None None)]
   \<and> (\<exists>cs bs.
         out (joins demo_bcrypt three_open
                ([(1, join_lobby None None), (2, join_lobby None (Some ''bob''))] @ [(3, join_lobby None None)])) =
           out (joins demo_bcrypt three_open [(1, join_lobby None None), (2, join_lobby None (Some ''bob''))])
           @ Send 3 (Joined ''lobby''
                (ws_id (sockets (joins demo_bcrypt three_open
                   [(1, join_lobby None None), (2, join_lobby None (Some ''bob''))]) 3))
                (map (\<lambda>c. (ws_id (sockets (joins demo_bcrypt three_open
                                [(1, join_lobby None None), (2, join_lobby None (Some ''bob''))]) c),
                           ws_alias (sockets (joins demo_bcrypt three_open
                                [(1, join_lobby None None), (2, join_lobby None (Some ''bob''))]) c))) cs))
             # bs
         \<and> distinct cs
         \<and> set cs = fst ` set [(1, join_lobby None None), (2, join_lobby None (Some ''bob''))] - {3})
   \<and> out (joins demo_bcrypt three_open
        [(1, join_lobby None None), (2, join_lobby None (Some ''bob'')), (3, join_lobby None None)])
      = [Send 1 (Joined ''lobby'' ''aa'' []),
         Send 2 (Joined ''lobby'' ''bb'' [(''aa'', Some ''Cloaker'')]),
         Send 1 (Peer_joined ''bb'' ''bob''),
         Send 3 (Joined ''lobby'' ''cc'' [(''aa'', Some ''Cloaker''), (''bb'', Some ''bob'')]),
         Send 1 (Peer_joined ''cc'' ''Cloaker''),
         Send 2 (Peer_joined ''cc'' ''Cloaker'')]"
proof -
  let ?js = "[(1, join_lobby None None), (2, join_lobby None (Some ''bob'')), (3, join_lobby None None)]"
  have f: "map_of (cloakRooms three_open) ''lobby'' = None" and n: "''lobby'' \<noteq> []"
    by (simp_all add: scen2 defs)
  have a: "list_all (\<lambda>(ws, d). d_type d = Some ''join'' \<and> d_room d = Some ''lobby'') ?js"
    by (simp add: join_lobby_def noData_def)
  have p: "\<not> truthy (d_password (snd (hd ?js)))"
    by (simp add: join_lobby_def noData_def truthy_def)
  have e: "?js = [(1, join_lobby None None), (2, join_lobby None (Some ''bob''))] @ (3, join_lobby None None) # []"
    by simp
  have o: "out (joins demo_bcrypt three_open ?js)
      = [Send 1 (Joined ''lobby'' ''aa'' []),
         Send 2 (Joined ''lobby'' ''bb'' [(''aa'', Some ''Cloaker'')]),
         Send 1 (Peer_joined ''bb'' ''bob''),
         Send 3 (Joined ''lobby'' ''cc'' [(''aa'', Some ''Cloaker''), (''bb'', Some ''bob'')]),
         Send 1 (Peer_joined ''cc'' ''Cloaker''),
         Send 2 (Peer_joined ''cc'' ''Cloaker'')]"
    by (simp add: scen2 defs)
  from C6_joined_lists_earlier_members [OF f n a p e, of demo_bcrypt] f a o show ?thesis
    by blast
qed

section \<open>The password gate (C5)\<close>




section \<open>The rate limiter (C7)\<close>




end
